theory Spec2Isabelle
  imports Main "HOL-Library.Word"
begin

section \<open>Data model of moji.go\<close>

text \<open>
  A Go \<^verbatim>\<open>rune\<close> is an \<^verbatim>\<open>int32\<close>; the runes of
  \<^verbatim>\<open>[]rune(s)\<close> are code points, and moji.go only compares them, so they are
  integers here.  A byte is an 8-bit word.  The byte counts of \<^verbatim>\<open>WriteTo\<close> are
  \<^verbatim>\<open>int64\<close>: 64-bit words, whose \<open>+\<close> wraps around as Go's does and which
  \<open>sint\<close> reads as signed.  \<^verbatim>\<open>WidthT\<close> is declared outside moji.go; widths are
  sums over the code points of one unit and are read as integers.  A Go
  \<^verbatim>\<open>error\<close> is identified with its message; \<^verbatim>\<open>nil\<close> is \<open>None\<close>.
\<close>

type_synonym rune = int
type_synonym byte = "8 word"
type_synonym WidthT = int
type_synonym int64 = "64 word"
type_synonym error = string

text \<open>
  The dynamic types behind the interface \<^verbatim>\<open>Moji\<close> that moji.go names: the three
  pair types \<^verbatim>\<open>[2]Moji\<close> it declares, \<^verbatim>\<open>_RawCodePoint\<close> (built by conversion from
  a rune in \<^verbatim>\<open>string2moji\<close>) and \<^verbatim>\<open>_WavingWhiteFlagCodePoint\<close> (the case
  of the two type switches).  The leading underscore of the Go names is dropped.
\<close>

datatype Moji =
    RawCodePoint rune
  | WavingWhiteFlagCodePoint rune
  | ZeroWidthJoinSequence Moji Moji
  | ModifierSequence Moji Moji
  | VariationSequence Moji Moji

text \<open>
  The package-level capability flags of moji.go (lines 16 to 32), together with the
  parts the file calls but does not contain, taken as parameters:
  the width and the \<^verbatim>\<open>PrintTo\<close> output of the two code point types (as the list
  of chunks handed to \<^verbatim>\<open>Write\<close>), the table behind
  \<^verbatim>\<open>isVariationSelectorLike\<close>, and the code points that \<^verbatim>\<open>rune2moji\<close>
  turns into a \<^verbatim>\<open>_WavingWhiteFlagCodePoint\<close>.
\<close>

record env =
  SurrogatePairOk :: bool
  ZeroWidthJoinSequenceOk :: bool
  VariationSequenceOk :: bool
  ModifierSequenceOk :: bool
  leafWidth :: "Moji \<Rightarrow> WidthT"
  leafPrint :: "Moji \<Rightarrow> byte list list"
  variationSelectorLike :: "rune \<Rightarrow> bool"
  wavingWhiteFlag :: "rune \<Rightarrow> bool"

text \<open>
  An \<^verbatim>\<open>io.Writer\<close>: \<^verbatim>\<open>Write(p)\<close> takes the writer's state and the bytes and
  returns the new state, the count and the error.  The count is given as the
  \<^verbatim>\<open>int64\<close> it becomes before \<^verbatim>\<open>WriteTo\<close> adds it (every Go
  \<^verbatim>\<open>int\<close> is one); nothing is assumed about its value.
\<close>

type_synonym 'w Writer = "'w \<Rightarrow> byte list \<Rightarrow> 'w \<times> int64 \<times> error option"

section \<open>Width\<close>

fun Width :: "env \<Rightarrow> Moji \<Rightarrow> WidthT" where
  "Width e (ZeroWidthJoinSequence s0 s1) = Width e s0 + 1 + Width e s1"
| "Width e (ModifierSequence s0 s1) = Width e s0 + Width e s1"
| "Width e (VariationSequence (WavingWhiteFlagCodePoint c) s1) =
     Width e (WavingWhiteFlagCodePoint c)"
| "Width e (VariationSequence s0 s1) = Width e s0 + 1"
| "Width e (RawCodePoint c) = leafWidth e (RawCodePoint c)"
| "Width e (WavingWhiteFlagCodePoint c) = leafWidth e (WavingWhiteFlagCodePoint c)"

section \<open>Writing\<close>

text \<open>
  \<^verbatim>\<open>utf8.EncodeRune\<close> of the Go standard library: a rune outside the Unicode range
  or in the surrogate range is encoded as U+FFFD.
\<close>

definition encodeRune :: "rune \<Rightarrow> byte list" where
  "encodeRune r =
     (let c = (if r < 0 \<or> 0x10FFFF < r \<or> (0xD800 \<le> r \<and> r \<le> 0xDFFF) then 0xFFFD else r) in
      if c \<le> 0x7F then [word_of_int c]
      else if c \<le> 0x7FF then
        [word_of_int (0xC0 + c div 64), word_of_int (0x80 + c mod 64)]
      else if c \<le> 0xFFFF then
        [word_of_int (0xE0 + c div 4096), word_of_int (0x80 + c div 64 mod 64),
         word_of_int (0x80 + c mod 64)]
      else
        [word_of_int (0xF0 + c div 262144), word_of_int (0x80 + c div 4096 mod 64),
         word_of_int (0x80 + c div 64 mod 64), word_of_int (0x80 + c mod 64)])"

text \<open>
  Modelled from the spec: \<^verbatim>\<open>writeRune\<close> is called by moji.go and defined elsewhere.
  It hands the UTF-8 bytes of the rune to the writer in one \<^verbatim>\<open>Write\<close> and returns
  the count and the error of that call (``serializes the Unit's constituent code points,
  verbatim'').
\<close>

definition writeRune :: "'w Writer \<Rightarrow> 'w \<Rightarrow> rune \<Rightarrow> 'w \<times> int64 \<times> error option" where
  "writeRune wr w r = wr w (encodeRune r)"

definition zeroWidthJoinRune :: rune where
  "zeroWidthJoinRune = 0x200D"

text \<open>
  Modelled from the spec: \<^verbatim>\<open>WriteTo\<close> of the two code point types is defined
  outside moji.go; it writes the code point with \<^verbatim>\<open>writeRune\<close> (the first two
  equations).  \<^verbatim>\<open>WriteTo\<close> of the three pair types is moji.go lines 62-73, 111-118
  and 135-142.
\<close>

fun WriteTo :: "'w Writer \<Rightarrow> Moji \<Rightarrow> 'w \<Rightarrow> 'w \<times> int64 \<times> error option" where
  "WriteTo wr (RawCodePoint c) w = writeRune wr w c"
| "WriteTo wr (WavingWhiteFlagCodePoint c) w = writeRune wr w c"
| "WriteTo wr (ZeroWidthJoinSequence s0 s1) w =
     (case WriteTo wr s0 w of (w1, n1, err1) \<Rightarrow>
        if err1 \<noteq> None then (w1, n1, err1)
        else (case writeRune wr w1 zeroWidthJoinRune of (w2, n2, err2) \<Rightarrow>
          if err2 \<noteq> None then (w2, n1 + n2, err2)
          else (case WriteTo wr s1 w2 of (w3, n3, err3) \<Rightarrow> (w3, n1 + n2 + n3, err3))))"
| "WriteTo wr (ModifierSequence s0 s1) w =
     (case WriteTo wr s0 w of (w1, n1, err1) \<Rightarrow>
        if err1 \<noteq> None then (w1, n1, err1)
        else (case WriteTo wr s1 w1 of (w2, n2, err2) \<Rightarrow> (w2, n1 + n2, err2)))"
| "WriteTo wr (VariationSequence s0 s1) w =
     (case WriteTo wr s0 w of (w1, n1, err1) \<Rightarrow>
        if err1 \<noteq> None then (w1, n1, err1)
        else (case WriteTo wr s1 w1 of (w2, n2, err2) \<Rightarrow> (w2, n1 + n2, err2)))"

section \<open>Printing\<close>

text \<open>A call \<^verbatim>\<open>w.Write(p)\<close> whose results are dropped.\<close>

definition writeIgnore :: "'w Writer \<Rightarrow> 'w \<Rightarrow> byte list \<Rightarrow> 'w" where
  "writeIgnore wr w p = fst (wr w p)"

text \<open>The loop \<^verbatim>\<open>for i := WidthT(0); i < n; i++ { w.Write(p) }\<close>, by the number of
  rounds left (none when \<open>n \<le> 0\<close>).\<close>

primrec writeTimes :: "'w Writer \<Rightarrow> byte list \<Rightarrow> nat \<Rightarrow> 'w \<Rightarrow> 'w" where
  "writeTimes wr p 0 w = w"
| "writeTimes wr p (Suc k) w = writeTimes wr p k (writeIgnore wr w p)"

definition saveCursorAfterN :: "'w Writer \<Rightarrow> 'w \<Rightarrow> WidthT \<Rightarrow> 'w" where
  "saveCursorAfterN wr w n =
     (let w1 = writeTimes wr [0x20] (nat n) w;
          w2 = writeIgnore wr w1 [0x1B, 0x37]
      in writeTimes wr [0x08] (nat n) w2)"

definition restoreCursor :: "'w Writer \<Rightarrow> 'w \<Rightarrow> 'w" where
  "restoreCursor wr w = writeIgnore wr w [0x1B, 0x38]"

text \<open>
  \<^verbatim>\<open>PrintTo\<close> of the three pair types is moji.go lines 75-88, 120-122 and 158-166;
  the first two equations are the two cases of the type switch on \<^verbatim>\<open>s[0]\<close>.
  \<^verbatim>\<open>PrintTo\<close> of the two code point types is defined outside moji.go: it performs
  the writes \<open>leafPrint\<close> lists, in order.
\<close>

fun PrintTo :: "env \<Rightarrow> 'w Writer \<Rightarrow> Moji \<Rightarrow> 'w \<Rightarrow> 'w" where
  "PrintTo e wr (ZeroWidthJoinSequence (WavingWhiteFlagCodePoint c) s1) w =
     (let w1 = saveCursorAfterN wr w
                 (Width e (ZeroWidthJoinSequence (WavingWhiteFlagCodePoint c) s1));
          w2 = fst (WriteTo wr (WavingWhiteFlagCodePoint c) w1);
          w3 = fst (writeRune wr w2 zeroWidthJoinRune);
          w4 = fst (WriteTo wr s1 w3)
      in restoreCursor wr w4)"
| "PrintTo e wr (ZeroWidthJoinSequence s0 s1) w =
     (let w1 = PrintTo e wr s0 w;
          w2 = fst (writeRune wr w1 zeroWidthJoinRune)
      in PrintTo e wr s1 w2)"
| "PrintTo e wr (ModifierSequence s0 s1) w = fst (WriteTo wr (ModifierSequence s0 s1) w)"
| "PrintTo e wr (VariationSequence s0 s1) w =
     (let w1 = saveCursorAfterN wr w (Width e (VariationSequence s0 s1));
          w2 = fst (WriteTo wr s0 w1);
          w3 = fst (WriteTo wr s1 w2)
      in restoreCursor wr w3)"
| "PrintTo e wr (RawCodePoint c) w = foldl (writeIgnore wr) w (leafPrint e (RawCodePoint c))"
| "PrintTo e wr (WavingWhiteFlagCodePoint c) w =
     foldl (writeIgnore wr) w (leafPrint e (WavingWhiteFlagCodePoint c))"

section \<open>Composition\<close>

text \<open>\<^verbatim>\<open>unicode.Is(unicode.Join_Control, r)\<close>: the property Join\_Control is
  U+200C and U+200D.\<close>

definition isJoinControl :: "rune \<Rightarrow> bool" where
  "isJoinControl r = (0x200C \<le> r \<and> r \<le> 0x200D)"

definition isZeroWidthJoin :: "env \<Rightarrow> rune \<Rightarrow> bool" where
  "isZeroWidthJoin e r = (ZeroWidthJoinSequenceOk e \<and> isJoinControl r)"

definition isEmojiModifier :: "env \<Rightarrow> rune \<Rightarrow> bool" where
  "isEmojiModifier e ch =
     (if \<not> ModifierSequenceOk e then False else 0x1F3FB \<le> ch \<and> ch \<le> 0x1F3FF)"

text \<open>
  Modelled from the spec: \<^verbatim>\<open>isVariationSelectorLike\<close> is called by moji.go and
  defined elsewhere (``a variation-selector-like code point AND VariationSequenceOk'');
  the set of such code points is the parameter \<open>variationSelectorLike\<close>.
\<close>

definition isVariationSelectorLike :: "env \<Rightarrow> rune \<Rightarrow> bool" where
  "isVariationSelectorLike e r = (VariationSequenceOk e \<and> variationSelectorLike e r)"

text \<open>
  Modelled from the spec: \<^verbatim>\<open>rune2moji\<close> is called by moji.go and defined elsewhere
  (``append a new BareCodePoint Unit for runes[i]''); the code points it gives the type
  \<^verbatim>\<open>_WavingWhiteFlagCodePoint\<close> are the parameter \<open>wavingWhiteFlag\<close>.
\<close>

definition rune2moji :: "env \<Rightarrow> rune \<Rightarrow> Moji" where
  "rune2moji e r = (if wavingWhiteFlag e r then WavingWhiteFlagCodePoint r else RawCodePoint r)"

text \<open>A Go run-time panic.\<close>

datatype panic = IndexOutOfRange

text \<open>
  The loop of \<^verbatim>\<open>string2moji\<close> (moji.go lines 185-202) from index \<open>i\<close> with the
  slice \<open>mojis\<close> built so far.  The assignment to \<^verbatim>\<open>mojis[len(mojis)-1]\<close>
  panics on an empty slice.
\<close>

function string2moji_loop :: "env \<Rightarrow> rune list \<Rightarrow> nat \<Rightarrow> Moji list \<Rightarrow> panic + Moji list" where
  "string2moji_loop e runes i mojis =
     (if i < length runes then
        (if isZeroWidthJoin e (runes ! i) \<and> 0 < i \<and> i + 1 < length runes then
           (if mojis = [] then Inl IndexOutOfRange
            else string2moji_loop e runes (i + 1 + 1)
                   (mojis[length mojis - 1 :=
                      ZeroWidthJoinSequence (mojis ! (length mojis - 1))
                        (RawCodePoint (runes ! (i + 1)))]))
         else if isVariationSelectorLike e (runes ! i) \<and> 0 < i then
           (if mojis = [] then Inl IndexOutOfRange
            else string2moji_loop e runes (i + 1)
                   (mojis[length mojis - 1 :=
                      VariationSequence (mojis ! (length mojis - 1))
                        (RawCodePoint (runes ! i))]))
         else if isEmojiModifier e (runes ! i) \<and> 0 < i then
           (if mojis = [] then Inl IndexOutOfRange
            else string2moji_loop e runes (i + 1)
                   (mojis[length mojis - 1 :=
                      ModifierSequence (mojis ! (length mojis - 1))
                        (RawCodePoint (runes ! i))]))
         else string2moji_loop e runes (i + 1) (mojis @ [rune2moji e (runes ! i)]))
      else Inr mojis)"
  by pat_completeness auto
termination
  by (relation "measure (\<lambda>(e, runes, i, mojis). length runes - i)") auto

declare string2moji_loop.simps [simp del]

definition string2moji :: "env \<Rightarrow> rune list \<Rightarrow> panic + Moji list" where
  "string2moji e runes = string2moji_loop e runes 0 []"

text \<open>\<^verbatim>\<open>strings.Builder\<close>: \<^verbatim>\<open>Write\<close> appends and never fails.\<close>

definition builderWrite :: "byte list Writer" where
  "builderWrite buf p = (buf @ p, of_nat (length p), None)"

definition moji2string :: "Moji list \<Rightarrow> byte list" where
  "moji2string m = foldl (\<lambda>buffer m1. fst (WriteTo builderWrite m1 buffer)) [] m"

section \<open>Observing the output\<close>

text \<open>The type test \<^verbatim>\<open>s[0].(_WavingWhiteFlagCodePoint)\<close> of the two type switches.\<close>

fun isWavingWhiteFlagCodePoint :: "Moji \<Rightarrow> bool" where
  "isWavingWhiteFlagCodePoint (WavingWhiteFlagCodePoint c) = True"
| "isWavingWhiteFlagCodePoint m = False"

text \<open>The code point unit a unit starts with: the first operand of the first operand, and so
  on down to a code point.\<close>

fun leftmost :: "Moji \<Rightarrow> Moji" where
  "leftmost (ZeroWidthJoinSequence s0 s1) = leftmost s0"
| "leftmost (ModifierSequence s0 s1) = leftmost s0"
| "leftmost (VariationSequence s0 s1) = leftmost s0"
| "leftmost m = m"

text \<open>The bytes a unit's \<^verbatim>\<open>WriteTo\<close> and \<^verbatim>\<open>PrintTo\<close> leave in an empty
  \<^verbatim>\<open>strings.Builder\<close>.\<close>

definition writtenBytes :: "Moji \<Rightarrow> byte list" where
  "writtenBytes m = fst (WriteTo builderWrite m [])"

definition printedBytes :: "env \<Rightarrow> Moji \<Rightarrow> byte list" where
  "printedBytes e m = PrintTo e builderWrite m []"

text \<open>
  The cursor-anchor trick in the words of the specification, for comparison with
  \<open>printedBytes\<close>: ``(a) write width space characters, (b) emit save cursor position,
  (c) move the cursor back width columns using backspace characters, (d) perform the real
  WriteTo of the Unit's content, (e) emit restore cursor position''.
\<close>

definition cursorAnchorTrick :: "env \<Rightarrow> Moji \<Rightarrow> byte list" where
  "cursorAnchorTrick e m =
     replicate (nat (Width e m)) 0x20 @ [0x1B, 0x37] @ replicate (nat (Width e m)) 0x08 @
     writtenBytes m @ [0x1B, 0x38]"

text \<open>
  A writer with room for a fixed number of bytes: a \<^verbatim>\<open>Write\<close> that fits is
  stored whole; one that does not stores what fits and returns that count with an error.
  The state is the stored bytes and the room left.
\<close>

definition limitedWrite :: "(byte list \<times> nat) Writer" where
  "limitedWrite w p =
     (if length p \<le> snd w then ((fst w @ p, snd w - length p), of_nat (length p), None)
      else ((fst w @ take (snd w) p, 0), of_nat (snd w), Some ''short write''))"

text \<open>
  An instance of the parameters, for evaluating the definitions on concrete input: the four
  flags as set under Windows Terminal, ASCII one column wide and every other code point two,
  code points printed by writing them, U+FE00 to U+FE0F variation-selector-like, and
  U+1F3F3 the flag.
\<close>

definition exampleEnv :: env where
  "exampleEnv =
     \<lparr> SurrogatePairOk = True, ZeroWidthJoinSequenceOk = True,
       VariationSequenceOk = True, ModifierSequenceOk = True,
       leafWidth = (\<lambda>m. case m of RawCodePoint c \<Rightarrow> (if c < 0x80 then 1 else 2) | _ \<Rightarrow> 2),
       leafPrint = (\<lambda>m. [writtenBytes m]),
       variationSelectorLike = (\<lambda>r. 0xFE00 \<le> r \<and> r \<le> 0xFE0F),
       wavingWhiteFlag = (\<lambda>r. r = 0x1F3F3) \<rparr>"

text \<open>The same with \<^verbatim>\<open>ZeroWidthJoinSequenceOk\<close> off.\<close>

definition exampleEnvNoJoin :: env where
  "exampleEnvNoJoin = exampleEnv \<lparr> ZeroWidthJoinSequenceOk := False \<rparr>"

section \<open>Writing to a builder\<close>

lemma WriteTo_builder_ex:
  "\<exists>bs. \<forall>buf. WriteTo builderWrite m buf = (buf @ bs, of_nat (length bs), None)"
proof (induction m)
  case (RawCodePoint c)
  show ?case by (simp add: writeRune_def builderWrite_def)
next
  case (WavingWhiteFlagCodePoint c)
  show ?case by (simp add: writeRune_def builderWrite_def)
next
  case (ZeroWidthJoinSequence s0 s1)
  then obtain b0 b1 where
    h0: "\<And>buf. WriteTo builderWrite s0 buf = (buf @ b0, of_nat (length b0), None)" and
    h1: "\<And>buf. WriteTo builderWrite s1 buf = (buf @ b1, of_nat (length b1), None)"
    by blast
  have "\<forall>buf. WriteTo builderWrite (ZeroWidthJoinSequence s0 s1) buf =
      (buf @ (b0 @ encodeRune zeroWidthJoinRune @ b1),
       of_nat (length (b0 @ encodeRune zeroWidthJoinRune @ b1)), None)"
    by (simp add: h0 h1 writeRune_def builderWrite_def)
  then show ?case by blast
next
  case (ModifierSequence s0 s1)
  then obtain b0 b1 where
    h0: "\<And>buf. WriteTo builderWrite s0 buf = (buf @ b0, of_nat (length b0), None)" and
    h1: "\<And>buf. WriteTo builderWrite s1 buf = (buf @ b1, of_nat (length b1), None)"
    by blast
  have "\<forall>buf. WriteTo builderWrite (ModifierSequence s0 s1) buf =
      (buf @ (b0 @ b1), of_nat (length (b0 @ b1)), None)"
    by (simp add: h0 h1)
  then show ?case by blast
next
  case (VariationSequence s0 s1)
  then obtain b0 b1 where
    h0: "\<And>buf. WriteTo builderWrite s0 buf = (buf @ b0, of_nat (length b0), None)" and
    h1: "\<And>buf. WriteTo builderWrite s1 buf = (buf @ b1, of_nat (length b1), None)"
    by blast
  have "\<forall>buf. WriteTo builderWrite (VariationSequence s0 s1) buf =
      (buf @ (b0 @ b1), of_nat (length (b0 @ b1)), None)"
    by (simp add: h0 h1)
  then show ?case by blast
qed

lemma WriteTo_builderWrite:
  "WriteTo builderWrite m buf = (buf @ writtenBytes m, of_nat (length (writtenBytes m)), None)"
proof -
  obtain bs where h: "\<And>buf. WriteTo builderWrite m buf = (buf @ bs, of_nat (length bs), None)"
    using WriteTo_builder_ex by blast
  have "writtenBytes m = bs" by (simp add: writtenBytes_def h)
  then show ?thesis by (simp add: h)
qed

lemma writtenBytes_simps:
  "writtenBytes (RawCodePoint c) = encodeRune c"
  "writtenBytes (WavingWhiteFlagCodePoint c) = encodeRune c"
  "writtenBytes (ZeroWidthJoinSequence s0 s1) =
     writtenBytes s0 @ encodeRune zeroWidthJoinRune @ writtenBytes s1"
  "writtenBytes (ModifierSequence s0 s1) = writtenBytes s0 @ writtenBytes s1"
  "writtenBytes (VariationSequence s0 s1) = writtenBytes s0 @ writtenBytes s1"
proof -
  show "writtenBytes (RawCodePoint c) = encodeRune c"
    by (simp add: writtenBytes_def writeRune_def builderWrite_def)
  show "writtenBytes (WavingWhiteFlagCodePoint c) = encodeRune c"
    by (simp add: writtenBytes_def writeRune_def builderWrite_def)
  have "WriteTo builderWrite (ZeroWidthJoinSequence s0 s1) [] =
      (writtenBytes s0 @ encodeRune zeroWidthJoinRune @ writtenBytes s1,
       of_nat (length (writtenBytes s0 @ encodeRune zeroWidthJoinRune @ writtenBytes s1)), None)"
    by (simp add: WriteTo_builderWrite writeRune_def builderWrite_def)
  then show "writtenBytes (ZeroWidthJoinSequence s0 s1) =
     writtenBytes s0 @ encodeRune zeroWidthJoinRune @ writtenBytes s1"
    by (simp add: writtenBytes_def)
  have "WriteTo builderWrite (ModifierSequence s0 s1) [] =
      (writtenBytes s0 @ writtenBytes s1, of_nat (length (writtenBytes s0 @ writtenBytes s1)), None)"
    by (simp add: WriteTo_builderWrite)
  then show "writtenBytes (ModifierSequence s0 s1) = writtenBytes s0 @ writtenBytes s1"
    by (simp add: writtenBytes_def)
  have "WriteTo builderWrite (VariationSequence s0 s1) [] =
      (writtenBytes s0 @ writtenBytes s1, of_nat (length (writtenBytes s0 @ writtenBytes s1)), None)"
    by (simp add: WriteTo_builderWrite)
  then show "writtenBytes (VariationSequence s0 s1) = writtenBytes s0 @ writtenBytes s1"
    by (simp add: writtenBytes_def)
qed

lemma writeTimes_builderWrite:
  "writeTimes builderWrite p k buf = buf @ concat (replicate k p)"
  by (induction k arbitrary: buf) (simp_all add: writeIgnore_def builderWrite_def)

lemma writeTimes_builderWrite_single:
  "writeTimes builderWrite [b] k buf = buf @ replicate k b"
  by (induction k arbitrary: buf)
     (simp_all add: writeIgnore_def builderWrite_def replicate_app_Cons_same)

lemma saveCursorAfterN_builderWrite:
  "saveCursorAfterN builderWrite buf n =
     buf @ replicate (nat n) 0x20 @ [0x1B, 0x37] @ replicate (nat n) 0x08"
  by (simp add: saveCursorAfterN_def writeTimes_builderWrite_single writeIgnore_def
      builderWrite_def)

lemma restoreCursor_builderWrite: "restoreCursor builderWrite buf = buf @ [0x1B, 0x38]"
  by (simp add: restoreCursor_def writeIgnore_def builderWrite_def)

lemma foldl_writeIgnore_builderWrite:
  "foldl (writeIgnore builderWrite) buf ps = buf @ concat ps"
  by (induction ps arbitrary: buf) (simp_all add: writeIgnore_def builderWrite_def)

lemma PrintTo_ZeroWidthJoinSequence_default:
  "\<not> isWavingWhiteFlagCodePoint s0 \<Longrightarrow>
   PrintTo e wr (ZeroWidthJoinSequence s0 s1) w =
     PrintTo e wr s1 (fst (writeRune wr (PrintTo e wr s0 w) zeroWidthJoinRune))"
  by (cases s0) (simp_all add: Let_def)

lemma PrintTo_builder_ex: "\<exists>bs. \<forall>buf. PrintTo e builderWrite m buf = buf @ bs"
proof (induction m)
  case (RawCodePoint c)
  show ?case by (simp add: foldl_writeIgnore_builderWrite)
next
  case (WavingWhiteFlagCodePoint c)
  show ?case by (simp add: foldl_writeIgnore_builderWrite)
next
  case (ZeroWidthJoinSequence s0 s1)
  then obtain b0 b1 where
    h0: "\<And>buf. PrintTo e builderWrite s0 buf = buf @ b0" and
    h1: "\<And>buf. PrintTo e builderWrite s1 buf = buf @ b1"
    by blast
  show ?case
  proof (cases "isWavingWhiteFlagCodePoint s0")
    case True
    then obtain c where c: "s0 = WavingWhiteFlagCodePoint c" by (cases s0) simp_all
    let ?n = "nat (Width e (ZeroWidthJoinSequence s0 s1))"
    have "\<forall>buf. PrintTo e builderWrite (ZeroWidthJoinSequence s0 s1) buf =
        buf @ (replicate ?n 0x20 @ [0x1B, 0x37] @ replicate ?n 0x08 @ encodeRune c @
               encodeRune zeroWidthJoinRune @ writtenBytes s1 @ [0x1B, 0x38])"
      by (simp add: c saveCursorAfterN_builderWrite restoreCursor_builderWrite
          WriteTo_builderWrite writeRune_def builderWrite_def)
    then show ?thesis by blast
  next
    case False
    have "\<forall>buf. PrintTo e builderWrite (ZeroWidthJoinSequence s0 s1) buf =
        buf @ (b0 @ encodeRune zeroWidthJoinRune @ b1)"
      by (simp add: PrintTo_ZeroWidthJoinSequence_default [OF False] h0 h1 writeRune_def
          builderWrite_def)
    then show ?thesis by blast
  qed
next
  case (ModifierSequence s0 s1)
  have "\<forall>buf. PrintTo e builderWrite (ModifierSequence s0 s1) buf =
      buf @ writtenBytes (ModifierSequence s0 s1)"
    by (simp add: WriteTo_builderWrite del: WriteTo.simps)
  then show ?case by blast
next
  case (VariationSequence s0 s1)
  let ?n = "nat (Width e (VariationSequence s0 s1))"
  have "\<forall>buf. PrintTo e builderWrite (VariationSequence s0 s1) buf =
      buf @ (replicate ?n 0x20 @ [0x1B, 0x37] @ replicate ?n 0x08 @ writtenBytes s0 @
             writtenBytes s1 @ [0x1B, 0x38])"
    by (simp add: saveCursorAfterN_builderWrite restoreCursor_builderWrite
        WriteTo_builderWrite del: Width.simps)
  then show ?case by blast
qed

lemma PrintTo_builderWrite: "PrintTo e builderWrite m buf = buf @ printedBytes e m"
proof -
  obtain bs where h: "\<And>buf. PrintTo e builderWrite m buf = buf @ bs"
    using PrintTo_builder_ex by blast
  have "printedBytes e m = bs" using h [of "[]"] by (simp add: printedBytes_def)
  then show ?thesis by (simp add: h)
qed

section \<open>UTF-8 bytes of the code points used below\<close>

lemma encodeRune_examples:
  "encodeRune 0x31 = [0x31]" "encodeRune 0x41 = [0x41]"
  "encodeRune 0x61 = [0x61]" "encodeRune 0x62 = [0x62]"
  "encodeRune 0x200C = [0xE2, 0x80, 0x8C]" "encodeRune 0x200D = [0xE2, 0x80, 0x8D]"
  "encodeRune 0xFE0F = [0xEF, 0xB8, 0x8F]" "encodeRune 0x1F3F3 = [0xF0, 0x9F, 0x8F, 0xB3]"
  "encodeRune 0x1F308 = [0xF0, 0x9F, 0x8C, 0x88]"
  by (simp_all add: encodeRune_def)

section \<open>Printing to a builder\<close>

lemma printedBytes_leaf:
  "printedBytes e (RawCodePoint c) = concat (leafPrint e (RawCodePoint c))"
  "printedBytes e (WavingWhiteFlagCodePoint c) =
     concat (leafPrint e (WavingWhiteFlagCodePoint c))"
  by (simp_all add: printedBytes_def foldl_writeIgnore_builderWrite)

lemma printedBytes_ZeroWidthJoinSequence_flag:
  "printedBytes e (ZeroWidthJoinSequence (WavingWhiteFlagCodePoint c) s1) =
     cursorAnchorTrick e (ZeroWidthJoinSequence (WavingWhiteFlagCodePoint c) s1)"
  by (simp add: printedBytes_def cursorAnchorTrick_def saveCursorAfterN_builderWrite
      restoreCursor_builderWrite WriteTo_builderWrite writeRune_def builderWrite_def
      writtenBytes_simps del: WriteTo.simps)

lemma printedBytes_ZeroWidthJoinSequence_default:
  assumes "\<not> isWavingWhiteFlagCodePoint s0"
  shows "printedBytes e (ZeroWidthJoinSequence s0 s1) =
     printedBytes e s0 @ encodeRune zeroWidthJoinRune @ printedBytes e s1"
proof -
  have "PrintTo e builderWrite (ZeroWidthJoinSequence s0 s1) [] =
      printedBytes e s0 @ encodeRune zeroWidthJoinRune @ printedBytes e s1"
    by (simp add: PrintTo_ZeroWidthJoinSequence_default [OF assms] PrintTo_builderWrite
        writeRune_def builderWrite_def)
  then show ?thesis by (simp only: printedBytes_def)
qed

lemma printedBytes_ModifierSequence:
  "printedBytes e (ModifierSequence s0 s1) = writtenBytes s0 @ writtenBytes s1"
  by (simp add: printedBytes_def WriteTo_builderWrite)

lemma printedBytes_VariationSequence:
  "printedBytes e (VariationSequence s0 s1) = cursorAnchorTrick e (VariationSequence s0 s1)"
  by (simp add: printedBytes_def cursorAnchorTrick_def saveCursorAfterN_builderWrite
      restoreCursor_builderWrite WriteTo_builderWrite writtenBytes_simps
      del: WriteTo.simps Width.simps)

text \<open>
  Whatever the parameters are, as long as widths are not negative: when the left operand is
  a \<^verbatim>\<open>_VariationSequence\<close>, what \<^verbatim>\<open>PrintTo\<close> of a
  \<^verbatim>\<open>_ZeroWidthJoinSequence\<close> emits is not the cursor-anchor trick for the sequence
  (the two differ at the position of the first ESC).
\<close>

lemma zwj_print_differs_after_variation:
  assumes "0 \<le> Width e (VariationSequence s0 t)" and "0 \<le> Width e s1"
  shows "printedBytes e (ZeroWidthJoinSequence (VariationSequence s0 t) s1) \<noteq>
     cursorAnchorTrick e (ZeroWidthJoinSequence (VariationSequence s0 t) s1)"
proof -
  let ?v = "Width e (VariationSequence s0 t)"
  let ?k = "nat ?v"
  have p: "printedBytes e (ZeroWidthJoinSequence (VariationSequence s0 t) s1) ! ?k = 0x1B"
    by (simp add: printedBytes_ZeroWidthJoinSequence_default printedBytes_VariationSequence
        cursorAnchorTrick_def nth_append del: Width.simps)
  have "?k < nat (Width e (ZeroWidthJoinSequence (VariationSequence s0 t) s1))"
    using assms by (simp del: Width.simps(3,4))
  then have c: "cursorAnchorTrick e (ZeroWidthJoinSequence (VariationSequence s0 t) s1) ! ?k = 0x20"
    by (simp add: cursorAnchorTrick_def nth_append del: Width.simps)
  show ?thesis
  proof
    assume "printedBytes e (ZeroWidthJoinSequence (VariationSequence s0 t) s1) =
      cursorAnchorTrick e (ZeroWidthJoinSequence (VariationSequence s0 t) s1)"
    with p c have "(0x1B :: byte) = 0x20" by simp
    then show False by simp
  qed
qed

section \<open>Printing\<close>

text \<open>
  C1, as the specification states it, at a concrete unit: the left operand of this
  \<^verbatim>\<open>_ZeroWidthJoinSequence\<close> is a \<^verbatim>\<open>_VariationSequence\<close>, not the flag code point,
  and \<^verbatim>\<open>PrintTo\<close> does not emit the cursor-anchor trick for the sequence (four spaces,
  ESC 7, four backspaces, the content, ESC 8): it prints the left operand with its own
  bracket of width two, then the joiner and the right operand outside any bracket.
\<close>

theorem zwj_print_counterexample:
  "\<not> isWavingWhiteFlagCodePoint (VariationSequence (RawCodePoint 0x31) (RawCodePoint 0xFE0F)) \<and>
   printedBytes exampleEnv
     (ZeroWidthJoinSequence (VariationSequence (RawCodePoint 0x31) (RawCodePoint 0xFE0F))
        (RawCodePoint 0x41)) =
     [0x20, 0x20, 0x1B, 0x37, 0x08, 0x08, 0x31, 0xEF, 0xB8, 0x8F, 0x1B, 0x38,
      0xE2, 0x80, 0x8D, 0x41] \<and>
   cursorAnchorTrick exampleEnv
     (ZeroWidthJoinSequence (VariationSequence (RawCodePoint 0x31) (RawCodePoint 0xFE0F))
        (RawCodePoint 0x41)) =
     [0x20, 0x20, 0x20, 0x20, 0x1B, 0x37, 0x08, 0x08, 0x08, 0x08,
      0x31, 0xEF, 0xB8, 0x8F, 0xE2, 0x80, 0x8D, 0x41, 0x1B, 0x38] \<and>
   printedBytes exampleEnv
     (ZeroWidthJoinSequence (VariationSequence (RawCodePoint 0x31) (RawCodePoint 0xFE0F))
        (RawCodePoint 0x41)) \<noteq>
   cursorAnchorTrick exampleEnv
     (ZeroWidthJoinSequence (VariationSequence (RawCodePoint 0x31) (RawCodePoint 0xFE0F))
        (RawCodePoint 0x41))"
  by (simp add: printedBytes_ZeroWidthJoinSequence_default printedBytes_VariationSequence
      printedBytes_leaf cursorAnchorTrick_def writtenBytes_simps exampleEnv_def
      encodeRune_examples zeroWidthJoinRune_def eval_nat_numeral)

text \<open>
  C1, amended: \<^verbatim>\<open>PrintTo\<close> of a \<^verbatim>\<open>_ZeroWidthJoinSequence\<close> whose left operand is
  the flag code point emits the cursor-anchor trick once (width spaces, ESC 7, width
  backspaces, the left operand's \<^verbatim>\<open>WriteTo\<close>, the joiner U+200D, the right operand's
  \<^verbatim>\<open>WriteTo\<close>, ESC 8); with any other left operand it emits no bracket of its own:
  the left operand's \<^verbatim>\<open>PrintTo\<close>, the joiner U+200D, the right operand's
  \<^verbatim>\<open>PrintTo\<close>.
\<close>

theorem zwj_print:
  "printedBytes e (ZeroWidthJoinSequence s0 s1) =
     (if isWavingWhiteFlagCodePoint s0
      then replicate (nat (Width e (ZeroWidthJoinSequence s0 s1))) 0x20 @ [0x1B, 0x37] @
           replicate (nat (Width e (ZeroWidthJoinSequence s0 s1))) 0x08 @
           writtenBytes s0 @ encodeRune zeroWidthJoinRune @ writtenBytes s1 @ [0x1B, 0x38]
      else printedBytes e s0 @ encodeRune zeroWidthJoinRune @ printedBytes e s1)"
proof (cases "isWavingWhiteFlagCodePoint s0")
  case True
  then obtain c where "s0 = WavingWhiteFlagCodePoint c" by (cases s0) simp_all
  then show ?thesis
    by (simp add: printedBytes_ZeroWidthJoinSequence_flag cursorAnchorTrick_def
        writtenBytes_simps)
next
  case False
  then show ?thesis by (simp add: printedBytes_ZeroWidthJoinSequence_default)
qed

theorem zwj_print_witness:
  "printedBytes exampleEnv
     (ZeroWidthJoinSequence (WavingWhiteFlagCodePoint 0x1F3F3) (RawCodePoint 0x1F308)) =
     [0x20, 0x20, 0x20, 0x20, 0x20, 0x1B, 0x37, 0x08, 0x08, 0x08, 0x08, 0x08,
      0xF0, 0x9F, 0x8F, 0xB3, 0xE2, 0x80, 0x8D, 0xF0, 0x9F, 0x8C, 0x88, 0x1B, 0x38] \<and>
   printedBytes exampleEnv (ZeroWidthJoinSequence (RawCodePoint 0x61) (RawCodePoint 0x62)) =
     [0x61, 0xE2, 0x80, 0x8D, 0x62]"
  using zwj_print [where e = exampleEnv and ?s0.0 = "WavingWhiteFlagCodePoint 0x1F3F3"
      and ?s1.0 = "RawCodePoint 0x1F308"]
    zwj_print [where e = exampleEnv and ?s0.0 = "RawCodePoint 0x61"
      and ?s1.0 = "RawCodePoint 0x62"]
  by (simp add: printedBytes_leaf writtenBytes_simps exampleEnv_def encodeRune_examples
      zeroWidthJoinRune_def eval_nat_numeral)

text \<open>
  C3: \<^verbatim>\<open>PrintTo\<close> of every \<^verbatim>\<open>_VariationSequence\<close> emits width spaces, ESC 7,
  width backspaces, the bytes of the base's \<^verbatim>\<open>WriteTo\<close>, the bytes of the selector's
  \<^verbatim>\<open>WriteTo\<close> and ESC 8, in this order; on every writer the operands are written
  with \<^verbatim>\<open>WriteTo\<close> between \<^verbatim>\<open>saveCursorAfterN\<close> and \<^verbatim>\<open>restoreCursor\<close>.
\<close>

theorem variation_print:
  "printedBytes e (VariationSequence s0 s1) =
     replicate (nat (Width e (VariationSequence s0 s1))) 0x20 @ [0x1B, 0x37] @
     replicate (nat (Width e (VariationSequence s0 s1))) 0x08 @
     writtenBytes s0 @ writtenBytes s1 @ [0x1B, 0x38] \<and>
   PrintTo e wr (VariationSequence s0 s1) w =
     restoreCursor wr (fst (WriteTo wr s1 (fst (WriteTo wr s0
       (saveCursorAfterN wr w (Width e (VariationSequence s0 s1)))))))"
  by (simp add: printedBytes_VariationSequence cursorAnchorTrick_def writtenBytes_simps
      Let_def del: Width.simps)

theorem variation_print_witness:
  "printedBytes exampleEnv (VariationSequence (RawCodePoint 0x31) (RawCodePoint 0xFE0F)) =
     [0x20, 0x20, 0x1B, 0x37, 0x08, 0x08, 0x31, 0xEF, 0xB8, 0x8F, 0x1B, 0x38]"
  using variation_print [where e = exampleEnv and ?s0.0 = "RawCodePoint 0x31"
      and ?s1.0 = "RawCodePoint 0xFE0F"]
  by (simp add: writtenBytes_simps exampleEnv_def encodeRune_examples eval_nat_numeral)

section \<open>Widths\<close>

text \<open>
  C4: the width of a \<^verbatim>\<open>_VariationSequence\<close> is the base's width when the base is the
  flag code point and the base's width plus one otherwise; a base that is a composite with
  the flag code point inside gets the plus one.
\<close>

theorem variation_width:
  "Width e (VariationSequence s0 s1) =
     (if isWavingWhiteFlagCodePoint s0 then Width e s0 else Width e s0 + 1) \<and>
   Width e (VariationSequence (ZeroWidthJoinSequence (WavingWhiteFlagCodePoint c) t) s1) =
     Width e (ZeroWidthJoinSequence (WavingWhiteFlagCodePoint c) t) + 1 \<and>
   Width e (VariationSequence (VariationSequence (WavingWhiteFlagCodePoint c) t) s1) =
     Width e (WavingWhiteFlagCodePoint c) + 1 \<and>
   Width e (VariationSequence (ModifierSequence (WavingWhiteFlagCodePoint c) t) s1) =
     Width e (ModifierSequence (WavingWhiteFlagCodePoint c) t) + 1"
  by (cases s0) simp_all

theorem variation_width_witness:
  "Width exampleEnv (VariationSequence (WavingWhiteFlagCodePoint 0x1F3F3) (RawCodePoint 0xFE0F)) = 2 \<and>
   Width exampleEnv (VariationSequence (RawCodePoint 0x31) (RawCodePoint 0xFE0F)) = 2 \<and>
   Width exampleEnv (VariationSequence
       (ZeroWidthJoinSequence (WavingWhiteFlagCodePoint 0x1F3F3) (RawCodePoint 0x1F308))
       (RawCodePoint 0xFE0F)) = 6"
  using variation_width [where e = exampleEnv and ?s0.0 = "WavingWhiteFlagCodePoint 0x1F3F3"
      and ?s1.0 = "RawCodePoint 0xFE0F" and c = "0x1F3F3" and t = "RawCodePoint 0x1F308"]
    variation_width [where e = exampleEnv and ?s0.0 = "RawCodePoint 0x31"
      and ?s1.0 = "RawCodePoint 0xFE0F"]
  by (simp add: exampleEnv_def)

section \<open>Modifier sequences\<close>

text \<open>
  C6: on every writer \<^verbatim>\<open>PrintTo\<close> of a \<^verbatim>\<open>_ModifierSequence\<close> leaves the writer
  as its \<^verbatim>\<open>WriteTo\<close> does; the bytes are the base's followed by the modifier's, with no
  cursor control, and the width is the sum of the two widths.
\<close>

theorem modifier_print:
  "PrintTo e wr (ModifierSequence s0 s1) w = fst (WriteTo wr (ModifierSequence s0 s1) w) \<and>
   printedBytes e (ModifierSequence s0 s1) = writtenBytes (ModifierSequence s0 s1) \<and>
   writtenBytes (ModifierSequence s0 s1) = writtenBytes s0 @ writtenBytes s1 \<and>
   Width e (ModifierSequence s0 s1) = Width e s0 + Width e s1"
  by (simp add: printedBytes_ModifierSequence writtenBytes_simps)

theorem modifier_print_witness:
  "printedBytes exampleEnv (ModifierSequence (RawCodePoint 0x1F44D) (RawCodePoint 0x1F3FD)) =
     [0xF0, 0x9F, 0x91, 0x8D, 0xF0, 0x9F, 0x8F, 0xBD] \<and>
   PrintTo exampleEnv limitedWrite
       (ModifierSequence (RawCodePoint 0x1F44D) (RawCodePoint 0x1F3FD)) ([], 6) =
     ([0xF0, 0x9F, 0x91, 0x8D, 0xF0, 0x9F], 0) \<and>
   Width exampleEnv (ModifierSequence (RawCodePoint 0x1F44D) (RawCodePoint 0x1F3FD)) = 4"
  using modifier_print [where e = exampleEnv and wr = builderWrite
      and ?s0.0 = "RawCodePoint 0x1F44D" and ?s1.0 = "RawCodePoint 0x1F3FD" and w = "[]"]
    modifier_print [where e = exampleEnv and wr = limitedWrite
      and ?s0.0 = "RawCodePoint 0x1F44D" and ?s1.0 = "RawCodePoint 0x1F3FD" and w = "([], 6)"]
  by (simp add: writtenBytes_simps exampleEnv_def encodeRune_def writeRune_def limitedWrite_def)

section \<open>Errors while writing\<close>

text \<open>
  C7: on every writer and for each of the three pair types, \<^verbatim>\<open>WriteTo\<close> stops at
  the first constituent write that returns an error: the writer is left as that write left
  it (no later write of the unit is made), and the result is that error with the
  \<^verbatim>\<open>int64\<close> sum of the counts returned so far, the failing write's count
  included.  When no constituent fails the result is the last constituent's, with the sum
  of all counts.
\<close>

theorem WriteTo_first_error:
  "(\<forall>w1 n1 err. WriteTo wr s0 w = (w1, n1, Some err) \<longrightarrow>
      WriteTo wr (ZeroWidthJoinSequence s0 s1) w = (w1, n1, Some err) \<and>
      WriteTo wr (ModifierSequence s0 s1) w = (w1, n1, Some err) \<and>
      WriteTo wr (VariationSequence s0 s1) w = (w1, n1, Some err)) \<and>
   (\<forall>w1 n1 w2 n2 err.
      WriteTo wr s0 w = (w1, n1, None) \<and>
      writeRune wr w1 zeroWidthJoinRune = (w2, n2, Some err) \<longrightarrow>
      WriteTo wr (ZeroWidthJoinSequence s0 s1) w = (w2, n1 + n2, Some err)) \<and>
   (\<forall>w1 n1 w2 n2 w3 n3 r.
      WriteTo wr s0 w = (w1, n1, None) \<and>
      writeRune wr w1 zeroWidthJoinRune = (w2, n2, None) \<and>
      WriteTo wr s1 w2 = (w3, n3, r) \<longrightarrow>
      WriteTo wr (ZeroWidthJoinSequence s0 s1) w = (w3, n1 + n2 + n3, r)) \<and>
   (\<forall>w1 n1 w2 n2 r.
      WriteTo wr s0 w = (w1, n1, None) \<and> WriteTo wr s1 w1 = (w2, n2, r) \<longrightarrow>
      WriteTo wr (ModifierSequence s0 s1) w = (w2, n1 + n2, r) \<and>
      WriteTo wr (VariationSequence s0 s1) w = (w2, n1 + n2, r))"
  by simp

theorem WriteTo_first_error_witness:
  "WriteTo limitedWrite (RawCodePoint 0x1F44D) ([], 2) = (([0xF0, 0x9F], 0), 2, Some ''short write'') \<and>
   WriteTo limitedWrite (ZeroWidthJoinSequence (RawCodePoint 0x1F44D) (RawCodePoint 0x62)) ([], 2) =
     (([0xF0, 0x9F], 0), 2, Some ''short write'') \<and>
   WriteTo limitedWrite (RawCodePoint 0x1F44D) ([], 5) = (([0xF0, 0x9F, 0x91, 0x8D], 1), 4, None) \<and>
   writeRune limitedWrite ([0xF0, 0x9F, 0x91, 0x8D], 1) zeroWidthJoinRune =
     (([0xF0, 0x9F, 0x91, 0x8D, 0xE2], 0), 1, Some ''short write'') \<and>
   WriteTo limitedWrite (ZeroWidthJoinSequence (RawCodePoint 0x1F44D) (RawCodePoint 0x62)) ([], 5) =
     (([0xF0, 0x9F, 0x91, 0x8D, 0xE2], 0), 5, Some ''short write'') \<and>
   WriteTo limitedWrite (RawCodePoint 0x1F3FD) ([0xF0, 0x9F, 0x91, 0x8D], 1) =
     (([0xF0, 0x9F, 0x91, 0x8D, 0xF0], 0), 1, Some ''short write'') \<and>
   WriteTo limitedWrite (ModifierSequence (RawCodePoint 0x1F44D) (RawCodePoint 0x1F3FD)) ([], 5) =
     (([0xF0, 0x9F, 0x91, 0x8D, 0xF0], 0), 5, Some ''short write'')"
proof -
  have a: "WriteTo limitedWrite (RawCodePoint 0x1F44D) ([], 2) =
      (([0xF0, 0x9F], 0), 2, Some ''short write'')"
    by (simp add: writeRune_def limitedWrite_def encodeRune_def)
  have b: "WriteTo limitedWrite (RawCodePoint 0x1F44D) ([], 5) =
      (([0xF0, 0x9F, 0x91, 0x8D], 1), 4, None)"
    by (simp add: writeRune_def limitedWrite_def encodeRune_def)
  have c: "writeRune limitedWrite ([0xF0, 0x9F, 0x91, 0x8D], 1) zeroWidthJoinRune =
      (([0xF0, 0x9F, 0x91, 0x8D, 0xE2], 0), 1, Some ''short write'')"
    by (simp add: writeRune_def limitedWrite_def encodeRune_def zeroWidthJoinRune_def)
  have d: "WriteTo limitedWrite (RawCodePoint 0x1F3FD) ([0xF0, 0x9F, 0x91, 0x8D], 1) =
      (([0xF0, 0x9F, 0x91, 0x8D, 0xF0], 0), 1, Some ''short write'')"
    by (simp add: writeRune_def limitedWrite_def encodeRune_def)
  from WriteTo_first_error [where wr = limitedWrite and ?s0.0 = "RawCodePoint 0x1F44D"
      and w = "([], 2)" and ?s1.0 = "RawCodePoint 0x62"] a
  have a': "WriteTo limitedWrite
      (ZeroWidthJoinSequence (RawCodePoint 0x1F44D) (RawCodePoint 0x62)) ([], 2) =
      (([0xF0, 0x9F], 0), 2, Some ''short write'')"
    by blast
  from WriteTo_first_error [where wr = limitedWrite and ?s0.0 = "RawCodePoint 0x1F44D"
      and w = "([], 5)" and ?s1.0 = "RawCodePoint 0x62"] b c
  have c': "WriteTo limitedWrite
      (ZeroWidthJoinSequence (RawCodePoint 0x1F44D) (RawCodePoint 0x62)) ([], 5) =
      (([0xF0, 0x9F, 0x91, 0x8D, 0xE2], 0), 4 + 1, Some ''short write'')"
    by blast
  from WriteTo_first_error [where wr = limitedWrite and ?s0.0 = "RawCodePoint 0x1F44D"
      and w = "([], 5)" and ?s1.0 = "RawCodePoint 0x1F3FD"] b d
  have d': "WriteTo limitedWrite
      (ModifierSequence (RawCodePoint 0x1F44D) (RawCodePoint 0x1F3FD)) ([], 5) =
      (([0xF0, 0x9F, 0x91, 0x8D, 0xF0], 0), 4 + 1, Some ''short write'')"
    by blast
  show ?thesis using a b c d a' c' d' by simp
qed

text \<open>
  The sums are \<^verbatim>\<open>int64\<close> sums: on a writer whose \<^verbatim>\<open>Write\<close> returns the
  largest \<^verbatim>\<open>int64\<close>, two writes give the count \<open>-2\<close>, as in Go.
\<close>

lemma WriteTo_count_wraps:
  "WriteTo (\<lambda>w p. (w, 0x7FFFFFFFFFFFFFFF, None))
     (ModifierSequence (RawCodePoint 0x61) (RawCodePoint 0x62)) () = ((), - 2, None) \<and>
   sint (- 2 :: int64) = - 2"
  by (simp add: writeRune_def)

text \<open>
  The count \<^verbatim>\<open>WriteTo\<close> returns is the number of bytes the writer took (as an
  \<^verbatim>\<open>int64\<close>), on every writer whose \<^verbatim>\<open>Write\<close> returns the number of bytes it
  took; the writer with limited room is one.
\<close>

lemma WriteTo_count:
  assumes wr: "\<And>w p w' n err. wr w p = (w', n, err) \<Longrightarrow> stored w' = stored w + n"
  shows "WriteTo wr m w = (w', n, err) \<Longrightarrow> stored w' = stored w + n"
proof (induction m arbitrary: w w' n err)
  case (RawCodePoint c)
  then show ?case using wr by (simp add: writeRune_def)
next
  case (WavingWhiteFlagCodePoint c)
  then show ?case using wr by (simp add: writeRune_def)
next
  case (ZeroWidthJoinSequence s0 s1)
  obtain w1 n1 e1 where a: "WriteTo wr s0 w = (w1, n1, e1)" by (cases "WriteTo wr s0 w") auto
  obtain w2 n2 e2 where b: "writeRune wr w1 zeroWidthJoinRune = (w2, n2, e2)"
    by (cases "writeRune wr w1 zeroWidthJoinRune") auto
  obtain w3 n3 e3 where c: "WriteTo wr s1 w2 = (w3, n3, e3)" by (cases "WriteTo wr s1 w2") auto
  have sa: "stored w1 = stored w + n1" using ZeroWidthJoinSequence.IH(1) a by blast
  have sb: "stored w2 = stored w1 + n2" using wr b by (simp add: writeRune_def)
  have sc: "stored w3 = stored w2 + n3" using ZeroWidthJoinSequence.IH(2) c by blast
  show ?case using ZeroWidthJoinSequence.prems a b c sa sb sc
    by (auto split: if_splits)
next
  case (ModifierSequence s0 s1)
  obtain w1 n1 e1 where a: "WriteTo wr s0 w = (w1, n1, e1)" by (cases "WriteTo wr s0 w") auto
  obtain w2 n2 e2 where c: "WriteTo wr s1 w1 = (w2, n2, e2)" by (cases "WriteTo wr s1 w1") auto
  have sa: "stored w1 = stored w + n1" using ModifierSequence.IH(1) a by blast
  have sc: "stored w2 = stored w1 + n2" using ModifierSequence.IH(2) c by blast
  show ?case using ModifierSequence.prems a c sa sc by (auto split: if_splits)
next
  case (VariationSequence s0 s1)
  obtain w1 n1 e1 where a: "WriteTo wr s0 w = (w1, n1, e1)" by (cases "WriteTo wr s0 w") auto
  obtain w2 n2 e2 where c: "WriteTo wr s1 w1 = (w2, n2, e2)" by (cases "WriteTo wr s1 w1") auto
  have sa: "stored w1 = stored w + n1" using VariationSequence.IH(1) a by blast
  have sc: "stored w2 = stored w1 + n2" using VariationSequence.IH(2) c by blast
  show ?case using VariationSequence.prems a c sa sc by (auto split: if_splits)
qed

lemma limitedWrite_count:
  "limitedWrite w p = (w', n, err) \<Longrightarrow> of_nat (length (fst w')) = of_nat (length (fst w)) + n"
  by (auto simp: limitedWrite_def split: if_splits)

lemma WriteTo_limitedWrite_count:
  "WriteTo limitedWrite m w = (w', n, err) \<Longrightarrow> of_nat (length (fst w')) = of_nat (length (fst w)) + n"
  by (rule WriteTo_count [where stored = "\<lambda>w. of_nat (length (fst w))" and wr = limitedWrite])
     (auto dest: limitedWrite_count)

section \<open>Composition never fails\<close>

lemma string2moji_loop_total:
  "i = 0 \<or> mojis \<noteq> [] \<Longrightarrow> \<exists>ms. string2moji_loop e runes i mojis = Inr ms"
proof (induction e runes i mojis rule: string2moji_loop.induct)
  case (1 e runes i mojis)
  show ?case
  proof (cases "i < length runes")
    case False
    then show ?thesis by (subst string2moji_loop.simps) auto
  next
    case True
    note inb = True
    show ?thesis
    proof (cases "isZeroWidthJoin e (runes ! i) \<and> 0 < i \<and> i + 1 < length runes")
      case True
      with "1.prems" have ne: "mojis \<noteq> []" by simp
      from "1.IH"(1) [OF inb True ne] obtain ms where
        "string2moji_loop e runes (i + 1 + 1)
           (mojis[length mojis - 1 := ZeroWidthJoinSequence (mojis ! (length mojis - 1))
              (RawCodePoint (runes ! (i + 1)))]) = Inr ms"
        using ne by auto
      then show ?thesis using inb True ne by (subst string2moji_loop.simps) auto
    next
      case False
      note nz = False
      show ?thesis
      proof (cases "isVariationSelectorLike e (runes ! i) \<and> 0 < i")
        case True
        with "1.prems" have ne: "mojis \<noteq> []" by simp
        from "1.IH"(2) [OF inb nz True ne] obtain ms where
          "string2moji_loop e runes (i + 1)
             (mojis[length mojis - 1 := VariationSequence (mojis ! (length mojis - 1))
                (RawCodePoint (runes ! i))]) = Inr ms"
          using ne by auto
        then show ?thesis using inb nz True ne by (subst string2moji_loop.simps) auto
      next
        case False
        note nv = False
        show ?thesis
        proof (cases "isEmojiModifier e (runes ! i) \<and> 0 < i")
          case True
          with "1.prems" have ne: "mojis \<noteq> []" by simp
          from "1.IH"(3) [OF inb nz nv True ne] obtain ms where
            "string2moji_loop e runes (i + 1)
               (mojis[length mojis - 1 := ModifierSequence (mojis ! (length mojis - 1))
                  (RawCodePoint (runes ! i))]) = Inr ms"
            using ne by auto
          then show ?thesis using inb nz nv True ne by (subst string2moji_loop.simps) auto
        next
          case False
          from "1.IH"(4) [OF inb nz nv False] obtain ms where
            "string2moji_loop e runes (i + 1) (mojis @ [rune2moji e (runes ! i)]) = Inr ms"
            by auto
          then show ?thesis using inb nz nv False by (subst string2moji_loop.simps) auto
        qed
      qed
    qed
  qed
qed

text \<open>
  C9: \<^verbatim>\<open>string2moji\<close> terminates on every input under every setting of the flags
  (the loop is a total function whose measure is the number of runes left) and never
  panics: the index \<^verbatim>\<open>len(mojis)-1\<close> is in bounds whenever a branch replaces the last
  unit, because \<open>mojis\<close> is not empty once \<open>i\<close> is positive.
\<close>

theorem string2moji_total: "\<exists>ms. string2moji e runes = Inr ms"
  unfolding string2moji_def by (rule string2moji_loop_total) simp

theorem string2moji_total_witness:
  "string2moji exampleEnv [0x200D, 0xFE0F, 0x1F3FB, 0x200D] =
     Inr [ModifierSequence (VariationSequence (RawCodePoint 0x200D) (RawCodePoint 0xFE0F))
            (RawCodePoint 0x1F3FB), RawCodePoint 0x200D]"
proof -
  obtain ms where "string2moji exampleEnv [0x200D, 0xFE0F, 0x1F3FB, 0x200D] = Inr ms"
    using string2moji_total by blast
  then show ?thesis
    by (simp add: string2moji_def string2moji_loop.simps isZeroWidthJoin_def
      isJoinControl_def isVariationSelectorLike_def isEmojiModifier_def rune2moji_def
      exampleEnv_def)
qed

section \<open>Widths of joined sequences\<close>

text \<open>
  C5: the width of a \<^verbatim>\<open>_ZeroWidthJoinSequence\<close> is the left width plus one plus the
  right width; with \<^verbatim>\<open>ZeroWidthJoinSequenceOk\<close> set, three code points separated by
  two U+200D compose to one sequence nested in another, and its width is the sum of the three
  code points' widths plus two.
\<close>

theorem zwj_width:
  "Width e (ZeroWidthJoinSequence s0 s1) = Width e s0 + 1 + Width e s1 \<and>
   (ZeroWidthJoinSequenceOk e \<longrightarrow>
      string2moji e [p, 0x200D, h, 0x200D, q] =
        Inr [ZeroWidthJoinSequence
               (ZeroWidthJoinSequence (rune2moji e p) (RawCodePoint h)) (RawCodePoint q)] \<and>
      Width e (ZeroWidthJoinSequence
               (ZeroWidthJoinSequence (rune2moji e p) (RawCodePoint h)) (RawCodePoint q)) =
        Width e (rune2moji e p) + Width e (RawCodePoint h) + Width e (RawCodePoint q) + 2)"
  by (simp add: string2moji_def string2moji_loop.simps isZeroWidthJoin_def isJoinControl_def)

theorem zwj_width_witness:
  "ZeroWidthJoinSequenceOk exampleEnv \<and>
   string2moji exampleEnv [0x1F469, 0x200D, 0x2764, 0x200D, 0x1F468] =
     Inr [ZeroWidthJoinSequence
            (ZeroWidthJoinSequence (RawCodePoint 0x1F469) (RawCodePoint 0x2764))
            (RawCodePoint 0x1F468)] \<and>
   Width exampleEnv (ZeroWidthJoinSequence
            (ZeroWidthJoinSequence (RawCodePoint 0x1F469) (RawCodePoint 0x2764))
            (RawCodePoint 0x1F468)) = 8"
  using zwj_width [where e = exampleEnv and ?s0.0 = "RawCodePoint 0x1F469"
      and ?s1.0 = "RawCodePoint 0x2764" and p = "0x1F469" and h = "0x2764" and q = "0x1F468"]
  by (simp add: exampleEnv_def rune2moji_def)

section \<open>The first unit\<close>

text \<open>
  The loop never removes a unit and only ever wraps the last one, so the unit the first
  round appends stays the start of the first unit of the result.
\<close>

lemma leftmost_hd_replace_last:
  assumes "mojis \<noteq> []" and "\<And>m. leftmost (g m) = leftmost m"
  shows "leftmost (hd (mojis[length mojis - 1 := g (mojis ! (length mojis - 1))])) =
     leftmost (hd mojis)"
proof (cases mojis)
  case Nil
  with assms(1) show ?thesis by simp
next
  case (Cons m ms)
  show ?thesis
  proof (cases ms)
    case Nil
    with Cons show ?thesis by (simp add: assms(2))
  next
    case (Cons m' ms')
    with \<open>mojis = m # ms\<close> show ?thesis by simp
  qed
qed

lemma string2moji_loop_leftmost:
  assumes "mojis \<noteq> []" and "leftmost (hd mojis) = x"
  shows "\<exists>ms. string2moji_loop e runes i mojis = Inr ms \<and> ms \<noteq> [] \<and> leftmost (hd ms) = x"
  using assms
proof (induction e runes i mojis rule: string2moji_loop.induct)
  case (1 e runes i mojis)
  note ne = "1.prems"(1) and lm = "1.prems"(2)
  show ?case
  proof (cases "i < length runes")
    case False
    then show ?thesis using ne lm by (subst string2moji_loop.simps) auto
  next
    case True
    note inb = True
    show ?thesis
    proof (cases "isZeroWidthJoin e (runes ! i) \<and> 0 < i \<and> i + 1 < length runes")
      case True
      let ?new = "mojis[length mojis - 1 := ZeroWidthJoinSequence (mojis ! (length mojis - 1))
              (RawCodePoint (runes ! (i + 1)))]"
      have n1: "?new \<noteq> []" using ne by simp
      have n2: "leftmost (hd ?new) = x"
        using leftmost_hd_replace_last [OF ne,
            where g = "\<lambda>m. ZeroWidthJoinSequence m (RawCodePoint (runes ! (i + 1)))"] lm
        by simp
      from "1.IH"(1) [OF inb True ne n1 n2] obtain ms where
        "string2moji_loop e runes (i + 1 + 1) ?new = Inr ms" "ms \<noteq> []" "leftmost (hd ms) = x"
        by blast
      then show ?thesis using inb True ne by (subst string2moji_loop.simps) auto
    next
      case False
      note nj = False
      show ?thesis
      proof (cases "isVariationSelectorLike e (runes ! i) \<and> 0 < i")
        case True
        let ?new = "mojis[length mojis - 1 := VariationSequence (mojis ! (length mojis - 1))
                (RawCodePoint (runes ! i))]"
        have n1: "?new \<noteq> []" using ne by simp
        have n2: "leftmost (hd ?new) = x"
          using leftmost_hd_replace_last [OF ne,
              where g = "\<lambda>m. VariationSequence m (RawCodePoint (runes ! i))"] lm
          by simp
        from "1.IH"(2) [OF inb nj True ne n1 n2] obtain ms where
          "string2moji_loop e runes (i + 1) ?new = Inr ms" "ms \<noteq> []" "leftmost (hd ms) = x"
          by blast
        then show ?thesis using inb nj True ne by (subst string2moji_loop.simps) auto
      next
        case False
        note nv = False
        show ?thesis
        proof (cases "isEmojiModifier e (runes ! i) \<and> 0 < i")
          case True
          let ?new = "mojis[length mojis - 1 := ModifierSequence (mojis ! (length mojis - 1))
                  (RawCodePoint (runes ! i))]"
          have n1: "?new \<noteq> []" using ne by simp
          have n2: "leftmost (hd ?new) = x"
            using leftmost_hd_replace_last [OF ne,
                where g = "\<lambda>m. ModifierSequence m (RawCodePoint (runes ! i))"] lm
            by simp
          from "1.IH"(3) [OF inb nj nv True ne n1 n2] obtain ms where
            "string2moji_loop e runes (i + 1) ?new = Inr ms" "ms \<noteq> []" "leftmost (hd ms) = x"
            by blast
          then show ?thesis using inb nj nv True ne by (subst string2moji_loop.simps) auto
        next
          case False
          let ?new = "mojis @ [rune2moji e (runes ! i)]"
          have n1: "?new \<noteq> []" by simp
          have n2: "leftmost (hd ?new) = x" using ne lm by simp
          from "1.IH"(4) [OF inb nj nv False n1 n2] obtain ms where
            "string2moji_loop e runes (i + 1) ?new = Inr ms" "ms \<noteq> []" "leftmost (hd ms) = x"
            by blast
          then show ?thesis using inb nj nv False by (subst string2moji_loop.simps) auto
        qed
      qed
    qed
  qed
qed

lemma string2moji_first_step:
  "string2moji e (r # rs) = string2moji_loop e (r # rs) 1 [rune2moji e r]"
  unfolding string2moji_def by (subst string2moji_loop.simps) simp

lemma leftmost_rune2moji: "leftmost (rune2moji e r) = rune2moji e r"
  by (simp add: rune2moji_def)

section \<open>Flag gating\<close>

text \<open>
  C8: with \<^verbatim>\<open>ZeroWidthJoinSequenceOk\<close> off, a Join\_Control code point between two
  code points composes to three units, one bare code point each, when neither the joiner
  nor the code point after it is variation-selector-like or an emoji modifier (as is the
  case for letters).  Under every setting of the flags, the first code point of a string,
  be it a joiner, a selector or a modifier, becomes a bare code point unit of its own: alone
  it is the whole result, it is what the loop holds after its first round, it is never
  dropped (the first unit of the result starts with it), and before a code point that is
  neither variation-selector-like nor an emoji modifier it stays a unit by itself.
\<close>

theorem flag_gating:
  "(\<not> ZeroWidthJoinSequenceOk e \<and> isJoinControl j \<and> \<not> isVariationSelectorLike e j \<and>
    \<not> isVariationSelectorLike e b \<and> \<not> isEmojiModifier e b \<longrightarrow>
      string2moji e [a, j, b] = Inr [rune2moji e a, rune2moji e j, rune2moji e b]) \<and>
   (rune2moji e r = RawCodePoint r \<or> rune2moji e r = WavingWhiteFlagCodePoint r) \<and>
   string2moji e [r] = Inr [rune2moji e r] \<and>
   string2moji e (r # rs) = string2moji_loop e (r # rs) 1 [rune2moji e r] \<and>
   (\<exists>ms. string2moji e (r # rs) = Inr ms \<and> ms \<noteq> [] \<and> leftmost (hd ms) = rune2moji e r) \<and>
   (\<not> isVariationSelectorLike e x \<and> \<not> isEmojiModifier e x \<longrightarrow>
      string2moji e [r, x] = Inr [rune2moji e r, rune2moji e x])"
proof -
  have three: "string2moji e [a, j, b] = Inr [rune2moji e a, rune2moji e j, rune2moji e b]"
    if h: "\<not> ZeroWidthJoinSequenceOk e" "isJoinControl j" "\<not> isVariationSelectorLike e j"
      "\<not> isVariationSelectorLike e b" "\<not> isEmojiModifier e b"
  proof -
    have "\<not> isEmojiModifier e j"
      using h(2) by (simp add: isEmojiModifier_def isJoinControl_def)
    then show ?thesis
      using h by (simp add: string2moji_def string2moji_loop.simps isZeroWidthJoin_def)
  qed
  have leaf: "rune2moji e r = RawCodePoint r \<or> rune2moji e r = WavingWhiteFlagCodePoint r"
    by (simp add: rune2moji_def)
  have one: "string2moji e [r] = Inr [rune2moji e r]"
    by (simp add: string2moji_def string2moji_loop.simps)
  have first: "string2moji e (r # rs) = string2moji_loop e (r # rs) 1 [rune2moji e r]"
    by (rule string2moji_first_step)
  have kept: "\<exists>ms. string2moji e (r # rs) = Inr ms \<and> ms \<noteq> [] \<and>
      leftmost (hd ms) = rune2moji e r"
    unfolding first
    by (rule string2moji_loop_leftmost) (simp_all add: leftmost_rune2moji)
  have two: "string2moji e [r, x] = Inr [rune2moji e r, rune2moji e x]"
    if "\<not> isVariationSelectorLike e x" "\<not> isEmojiModifier e x"
    using that by (simp add: string2moji_def string2moji_loop.simps)
  from three leaf one first kept two show ?thesis by blast
qed

theorem flag_gating_witness:
  "\<not> ZeroWidthJoinSequenceOk exampleEnvNoJoin \<and> isJoinControl 0x200D \<and>
   string2moji exampleEnvNoJoin [0x61, 0x200D, 0x62] =
     Inr [RawCodePoint 0x61, RawCodePoint 0x200D, RawCodePoint 0x62] \<and>
   ZeroWidthJoinSequenceOk exampleEnv \<and> isZeroWidthJoin exampleEnv 0x200D \<and>
   string2moji exampleEnv [0x200D] = Inr [RawCodePoint 0x200D] \<and>
   string2moji exampleEnv [0x200D, 0x61] = Inr [RawCodePoint 0x200D, RawCodePoint 0x61] \<and>
   isVariationSelectorLike exampleEnv 0xFE0F \<and>
   string2moji exampleEnv [0xFE0F, 0x61] = Inr [RawCodePoint 0xFE0F, RawCodePoint 0x61] \<and>
   isEmojiModifier exampleEnv 0x1F3FB \<and>
   string2moji exampleEnv [0x1F3FB, 0x61] = Inr [RawCodePoint 0x1F3FB, RawCodePoint 0x61]"
proof -
  have h: "\<not> ZeroWidthJoinSequenceOk exampleEnvNoJoin \<and> isJoinControl 0x200D \<and>
    \<not> isVariationSelectorLike exampleEnvNoJoin 0x200D \<and>
    \<not> isVariationSelectorLike exampleEnvNoJoin 0x62 \<and>
    \<not> isEmojiModifier exampleEnvNoJoin 0x62"
    by (simp add: exampleEnvNoJoin_def exampleEnv_def isJoinControl_def
        isVariationSelectorLike_def isEmojiModifier_def)
  have x: "\<not> isVariationSelectorLike exampleEnv 0x61 \<and> \<not> isEmojiModifier exampleEnv 0x61"
    by (simp add: exampleEnv_def isVariationSelectorLike_def isEmojiModifier_def)
  have k: "ZeroWidthJoinSequenceOk exampleEnv" "isZeroWidthJoin exampleEnv 0x200D"
    "isVariationSelectorLike exampleEnv 0xFE0F" "isEmojiModifier exampleEnv 0x1F3FB"
    by (simp_all add: exampleEnv_def isZeroWidthJoin_def isJoinControl_def
        isVariationSelectorLike_def isEmojiModifier_def)
  have r: "rune2moji exampleEnvNoJoin 0x61 = RawCodePoint 0x61"
    "rune2moji exampleEnvNoJoin 0x200D = RawCodePoint 0x200D"
    "rune2moji exampleEnvNoJoin 0x62 = RawCodePoint 0x62"
    "rune2moji exampleEnv 0x61 = RawCodePoint 0x61"
    "rune2moji exampleEnv 0x200D = RawCodePoint 0x200D"
    "rune2moji exampleEnv 0xFE0F = RawCodePoint 0xFE0F"
    "rune2moji exampleEnv 0x1F3FB = RawCodePoint 0x1F3FB"
    by (simp_all add: rune2moji_def exampleEnvNoJoin_def exampleEnv_def)
  from flag_gating [where e = exampleEnvNoJoin and a = "0x61" and j = "0x200D" and b = "0x62"] h
  have a: "string2moji exampleEnvNoJoin [0x61, 0x200D, 0x62] =
      Inr [RawCodePoint 0x61, RawCodePoint 0x200D, RawCodePoint 0x62]"
    unfolding r by blast
  from flag_gating [where e = exampleEnv and r = "0x200D" and x = "0x61"] x
  have b: "string2moji exampleEnv [0x200D] = Inr [RawCodePoint 0x200D]"
    "string2moji exampleEnv [0x200D, 0x61] = Inr [RawCodePoint 0x200D, RawCodePoint 0x61]"
    unfolding r by blast+
  from flag_gating [where e = exampleEnv and r = "0xFE0F" and x = "0x61"] x
  have c: "string2moji exampleEnv [0xFE0F, 0x61] = Inr [RawCodePoint 0xFE0F, RawCodePoint 0x61]"
    unfolding r by blast
  from flag_gating [where e = exampleEnv and r = "0x1F3FB" and x = "0x61"] x
  have d: "string2moji exampleEnv [0x1F3FB, 0x61] = Inr [RawCodePoint 0x1F3FB, RawCodePoint 0x61]"
    unfolding r by blast
  from h k a b c d show ?thesis by blast
qed

section \<open>Flattening\<close>

lemma foldl_WriteTo_builderWrite:
  "foldl (\<lambda>buffer m1. fst (WriteTo builderWrite m1 buffer)) buf ms =
     buf @ concat (map writtenBytes ms)"
  by (induction ms arbitrary: buf) (simp_all add: WriteTo_builderWrite del: WriteTo.simps)

lemma moji2string_concat: "moji2string ms = concat (map writtenBytes ms)"
  by (simp add: moji2string_def foldl_WriteTo_builderWrite)

lemma writtenBytes_rune2moji: "writtenBytes (rune2moji e r) = encodeRune r"
  by (simp add: rune2moji_def writtenBytes_simps)

text \<open>
  C10: with \<^verbatim>\<open>ZeroWidthJoinSequenceOk\<close> set the join rule accepts every Join\_Control
  code point, U+200C included, while \<^verbatim>\<open>WriteTo\<close> of the resulting sequence writes
  U+200D between the operands; so a code point, U+200C and a code point flatten to bytes
  that differ from the input's, with U+200D in the place of U+200C.
\<close>

theorem zwnj_rewritten:
  assumes "ZeroWidthJoinSequenceOk e"
  shows "isZeroWidthJoin e 0x200C \<and> isZeroWidthJoin e 0x200D \<and>
    isZeroWidthJoin e r = isJoinControl r \<and>
    writtenBytes (ZeroWidthJoinSequence s0 s1) =
      writtenBytes s0 @ encodeRune 0x200D @ writtenBytes s1 \<and>
    string2moji e [a, 0x200C, b] = Inr [ZeroWidthJoinSequence (rune2moji e a) (RawCodePoint b)] \<and>
    moji2string [ZeroWidthJoinSequence (rune2moji e a) (RawCodePoint b)] =
      encodeRune a @ encodeRune 0x200D @ encodeRune b \<and>
    encodeRune a @ encodeRune 0x200D @ encodeRune b \<noteq> concat (map encodeRune [a, 0x200C, b])"
proof -
  have j: "isZeroWidthJoin e 0x200C" "isZeroWidthJoin e 0x200D"
    "isZeroWidthJoin e r = isJoinControl r"
    using assms by (simp_all add: isZeroWidthJoin_def isJoinControl_def)
  have w: "writtenBytes (ZeroWidthJoinSequence s0 s1) =
      writtenBytes s0 @ encodeRune 0x200D @ writtenBytes s1"
    by (simp add: writtenBytes_simps zeroWidthJoinRune_def)
  have c: "string2moji e [a, 0x200C, b] =
      Inr [ZeroWidthJoinSequence (rune2moji e a) (RawCodePoint b)]"
    using j(1) by (simp add: string2moji_def string2moji_loop.simps)
  have m: "moji2string [ZeroWidthJoinSequence (rune2moji e a) (RawCodePoint b)] =
      encodeRune a @ encodeRune 0x200D @ encodeRune b"
    by (simp add: moji2string_concat writtenBytes_simps writtenBytes_rune2moji
        zeroWidthJoinRune_def)
  have d: "encodeRune a @ encodeRune 0x200D @ encodeRune b \<noteq>
      concat (map encodeRune [a, 0x200C, b])"
    by (simp add: encodeRune_examples)
  from j w c m d show ?thesis by blast
qed

theorem zwnj_rewritten_witness:
  "ZeroWidthJoinSequenceOk exampleEnv \<and>
   string2moji exampleEnv [0x61, 0x200C, 0x62] =
     Inr [ZeroWidthJoinSequence (RawCodePoint 0x61) (RawCodePoint 0x62)] \<and>
   moji2string [ZeroWidthJoinSequence (RawCodePoint 0x61) (RawCodePoint 0x62)] =
     [0x61, 0xE2, 0x80, 0x8D, 0x62]"
proof -
  have h: "ZeroWidthJoinSequenceOk exampleEnv" by (simp add: exampleEnv_def)
  from zwnj_rewritten [OF h, where a = "0x61" and b = "0x62"] h show ?thesis
    by (simp add: rune2moji_def exampleEnv_def encodeRune_examples)
qed

text \<open>
  C2, at the input ``a'', U+200C, ``b'' with all flags set: the flattened output holds
  the bytes of U+200D where the input has U+200C, so it is not the input.
\<close>

theorem roundtrip_failing_input:
  "string2moji exampleEnv [0x61, 0x200C, 0x62] =
     Inr [ZeroWidthJoinSequence (RawCodePoint 0x61) (RawCodePoint 0x62)] \<and>
   moji2string [ZeroWidthJoinSequence (RawCodePoint 0x61) (RawCodePoint 0x62)] =
     [0x61, 0xE2, 0x80, 0x8D, 0x62] \<and>
   concat (map encodeRune [0x61, 0x200C, 0x62]) = [0x61, 0xE2, 0x80, 0x8C, 0x62]"
  by (simp add: string2moji_def string2moji_loop.simps isZeroWidthJoin_def isJoinControl_def
      rune2moji_def exampleEnv_def moji2string_def builderWrite_def writeRune_def
      zeroWidthJoinRune_def encodeRune_examples)

text \<open>
  The round trip does hold whenever no U+200C can be taken for a joiner: with
  \<^verbatim>\<open>ZeroWidthJoinSequenceOk\<close> off, or on input without U+200C.
\<close>

lemma concat_map_replace_last:
  assumes "mojis \<noteq> []"
    and "f (g (last mojis)) = f (last mojis) @ bs"
  shows "concat (map f (mojis[length mojis - 1 := g (mojis ! (length mojis - 1))])) =
     concat (map f mojis) @ bs"
  using assms by (cases mojis rule: rev_cases) simp_all

lemma string2moji_loop_roundtrip:
  assumes "i = 0 \<or> mojis \<noteq> []"
    and "\<not> (ZeroWidthJoinSequenceOk e \<and> 0x200C \<in> set runes)"
  shows "\<exists>ms. string2moji_loop e runes i mojis = Inr ms \<and>
     concat (map writtenBytes ms) =
       concat (map writtenBytes mojis) @ concat (map encodeRune (drop i runes))"
  using assms
proof (induction e runes i mojis rule: string2moji_loop.induct)
  case (1 e runes i mojis)
  note nz = "1.prems"(2)
  show ?case
  proof (cases "i < length runes")
    case False
    then show ?thesis by (subst string2moji_loop.simps) simp
  next
    case True
    note inb = True
    have dr: "drop i runes = runes ! i # drop (i + 1) runes"
      using inb by (simp add: Cons_nth_drop_Suc)
    show ?thesis
    proof (cases "isZeroWidthJoin e (runes ! i) \<and> 0 < i \<and> i + 1 < length runes")
      case True
      with "1.prems" have ne: "mojis \<noteq> []" by simp
      have mem: "runes ! i \<in> set runes" using inb by simp
      have ok: "ZeroWidthJoinSequenceOk e" and jc: "isJoinControl (runes ! i)"
        using True by (simp_all add: isZeroWidthJoin_def)
      from ok nz have "0x200C \<notin> set runes" by simp
      with mem have "runes ! i \<noteq> 0x200C" by metis
      with jc have ri: "runes ! i = 0x200D" by (simp add: isJoinControl_def)
      have dr2: "drop i runes = runes ! i # runes ! (i + 1) # drop (i + 1 + 1) runes"
        using True dr by (simp add: Cons_nth_drop_Suc)
      let ?new = "mojis[length mojis - 1 := ZeroWidthJoinSequence (mojis ! (length mojis - 1))
              (RawCodePoint (runes ! (i + 1)))]"
      have new: "concat (map writtenBytes ?new) = concat (map writtenBytes mojis) @
          (encodeRune 0x200D @ encodeRune (runes ! (i + 1)))"
        by (rule concat_map_replace_last [OF ne,
              where g = "\<lambda>m. ZeroWidthJoinSequence m (RawCodePoint (runes ! (i + 1)))"])
           (simp add: writtenBytes_simps zeroWidthJoinRune_def)
      have "?new \<noteq> []" using ne by simp
      then have "i + 1 + 1 = 0 \<or> ?new \<noteq> []" by simp
      from "1.IH"(1) [OF inb True ne this nz] obtain ms where
        ms: "string2moji_loop e runes (i + 1 + 1) ?new = Inr ms"
          "concat (map writtenBytes ms) =
             concat (map writtenBytes ?new) @ concat (map encodeRune (drop (i + 1 + 1) runes))"
        by blast
      have "string2moji_loop e runes i mojis = Inr ms"
        using inb True ne ms(1) by (subst string2moji_loop.simps) auto
      moreover have "concat (map writtenBytes ms) =
          concat (map writtenBytes mojis) @ concat (map encodeRune (drop i runes))"
        unfolding ms(2) new dr2 using ri by simp
      ultimately show ?thesis by blast
    next
      case False
      note nj = False
      show ?thesis
      proof (cases "isVariationSelectorLike e (runes ! i) \<and> 0 < i")
        case True
        with "1.prems" have ne: "mojis \<noteq> []" by simp
        let ?new = "mojis[length mojis - 1 := VariationSequence (mojis ! (length mojis - 1))
                (RawCodePoint (runes ! i))]"
        have new: "concat (map writtenBytes ?new) = concat (map writtenBytes mojis) @
            encodeRune (runes ! i)"
          by (rule concat_map_replace_last [OF ne,
                where g = "\<lambda>m. VariationSequence m (RawCodePoint (runes ! i))"])
             (simp add: writtenBytes_simps)
        have "?new \<noteq> []" using ne by simp
        then have "i + 1 = 0 \<or> ?new \<noteq> []" by simp
        from "1.IH"(2) [OF inb nj True ne this nz] obtain ms where
          ms: "string2moji_loop e runes (i + 1) ?new = Inr ms"
            "concat (map writtenBytes ms) =
               concat (map writtenBytes ?new) @ concat (map encodeRune (drop (i + 1) runes))"
          by blast
        have "string2moji_loop e runes i mojis = Inr ms"
          using inb nj True ne ms(1) by (subst string2moji_loop.simps) auto
        moreover have "concat (map writtenBytes ms) =
            concat (map writtenBytes mojis) @ concat (map encodeRune (drop i runes))"
          unfolding ms(2) new dr by simp
        ultimately show ?thesis by blast
      next
        case False
        note nv = False
        show ?thesis
        proof (cases "isEmojiModifier e (runes ! i) \<and> 0 < i")
          case True
          with "1.prems" have ne: "mojis \<noteq> []" by simp
          let ?new = "mojis[length mojis - 1 := ModifierSequence (mojis ! (length mojis - 1))
                  (RawCodePoint (runes ! i))]"
          have new: "concat (map writtenBytes ?new) = concat (map writtenBytes mojis) @
              encodeRune (runes ! i)"
            by (rule concat_map_replace_last [OF ne,
                  where g = "\<lambda>m. ModifierSequence m (RawCodePoint (runes ! i))"])
               (simp add: writtenBytes_simps)
          have "?new \<noteq> []" using ne by simp
          then have "i + 1 = 0 \<or> ?new \<noteq> []" by simp
          from "1.IH"(3) [OF inb nj nv True ne this nz] obtain ms where
            ms: "string2moji_loop e runes (i + 1) ?new = Inr ms"
              "concat (map writtenBytes ms) =
                 concat (map writtenBytes ?new) @ concat (map encodeRune (drop (i + 1) runes))"
            by blast
          have "string2moji_loop e runes i mojis = Inr ms"
            using inb nj nv True ne ms(1) by (subst string2moji_loop.simps) auto
          moreover have "concat (map writtenBytes ms) =
              concat (map writtenBytes mojis) @ concat (map encodeRune (drop i runes))"
            unfolding ms(2) new dr by simp
          ultimately show ?thesis by blast
        next
          case False
          let ?new = "mojis @ [rune2moji e (runes ! i)]"
          have "i + 1 = 0 \<or> ?new \<noteq> []" by simp
          from "1.IH"(4) [OF inb nj nv False this nz] obtain ms where
            ms: "string2moji_loop e runes (i + 1) ?new = Inr ms"
              "concat (map writtenBytes ms) =
                 concat (map writtenBytes ?new) @ concat (map encodeRune (drop (i + 1) runes))"
            by blast
          have "string2moji_loop e runes i mojis = Inr ms"
            using inb nj nv False ms(1) by (subst string2moji_loop.simps) auto
          moreover have "concat (map writtenBytes ms) =
              concat (map writtenBytes mojis) @ concat (map encodeRune (drop i runes))"
            unfolding ms(2) dr by (simp add: writtenBytes_rune2moji)
          ultimately show ?thesis by blast
        qed
      qed
    qed
  qed
qed

lemma roundtrip_without_ZWNJ:
  assumes "\<not> (ZeroWidthJoinSequenceOk e \<and> 0x200C \<in> set runes)"
  shows "\<exists>ms. string2moji e runes = Inr ms \<and>
     moji2string ms = concat (map encodeRune runes)"
  using string2moji_loop_roundtrip [of 0 "[]" e runes] assms
  by (simp add: string2moji_def moji2string_concat)

end
